theory Spec2Isabelle
  imports Main
begin

section \<open>The exclusive-ownership pointer of wtf/PtrUtil.h\<close>

text \<open>
  The header defines \<^verbatim>\<open>template <typename T> class unique_ptr\<close> with one field,
  \<^verbatim>\<open>PtrType m_ptr\<close>, and a deleter \<^verbatim>\<open>OwnedPtrDeleter<T>::deletePtr\<close>. Its member
  functions mutate the object they are called on and, through references, the object they
  are handed, so the model keeps an explicit store: every \<^verbatim>\<open>unique_ptr\<close> object is
  named by its location (its \<^verbatim>\<open>this\<close> pointer), and the store maps that location to the
  value of its \<^verbatim>\<open>m_ptr\<close>. Two arguments that name the same object are then one location,
  as in the C++.
\<close>

subsection \<open>Addresses, objects and the state\<close>

type_synonym addr = nat

abbreviation (input) nullptr :: addr where
  "nullptr \<equiv> 0"

type_synonym handle = nat

text \<open>
  \<^verbatim>\<open>OwnedPtrDeleter<T>\<close> runs \<^verbatim>\<open>delete ptr\<close> and \<^verbatim>\<open>OwnedPtrDeleter<T[]>\<close> runs
  \<^verbatim>\<open>delete[] ptr\<close>.
\<close>

datatype delete_kind = ScalarDelete | ArrayDelete

text \<open>
  The trace lists, in program order, every write to an \<^verbatim>\<open>m_ptr\<close> field and every call
  of \<^verbatim>\<open>deletePtr\<close> with the pointer it received.
\<close>

datatype event = Store handle addr | DeletePtr delete_kind addr

record 'v state =
  m_ptr :: "handle \<Rightarrow> addr"
  heap :: "addr \<Rightarrow> 'v option"
  trace :: "event list"

definition init_state :: "'v state" where
  "init_state = \<lparr>m_ptr = (\<lambda>_. nullptr), heap = (\<lambda>_. None), trace = []\<rparr>"

text \<open>
  \<^verbatim>\<open>new T(v)\<close>, done by the caller before it hands the address over: the value \<open>v\<close>
  lives at address \<open>a\<close>.
\<close>

definition new_object :: "addr \<Rightarrow> 'v \<Rightarrow> 'v state \<Rightarrow> 'v state" where
  "new_object a v s = s\<lparr>heap := (heap s)(a := Some v)\<rparr>"

text \<open>The deleter calls of a trace, and the addresses whose value was destroyed.\<close>

fun deleter_calls :: "event list \<Rightarrow> (delete_kind \<times> addr) list" where
  "deleter_calls [] = []"
| "deleter_calls (Store h a # es) = deleter_calls es"
| "deleter_calls (DeletePtr k a # es) = (k, a) # deleter_calls es"

definition destroyed :: "'v state \<Rightarrow> addr list" where
  "destroyed s = filter (\<lambda>a. a \<noteq> nullptr) (map snd (deleter_calls (trace s)))"

subsection \<open>The member functions\<close>

text \<open>\<^verbatim>\<open>PtrType get() const { return m_ptr; }\<close>\<close>

definition get :: "handle \<Rightarrow> 'v state \<Rightarrow> addr" where
  "get this s = m_ptr s this"

text \<open>The assignment \<^verbatim>\<open>m_ptr = a\<close> inside a member function of the object at \<open>this\<close>.\<close>

definition set_m_ptr :: "handle \<Rightarrow> addr \<Rightarrow> 'v state \<Rightarrow> 'v state" where
  "set_m_ptr this a s = s\<lparr>m_ptr := (m_ptr s)(this := a), trace := trace s @ [Store this a]\<rparr>"

text \<open>
  \<^verbatim>\<open>static void deletePtr(T* ptr) { ...; delete ptr; }\<close> (and \<^verbatim>\<open>delete[] ptr\<close> for
  \<^verbatim>\<open>T[]\<close>). A delete-expression on the null pointer does nothing; on any other address it
  ends the life of the value there.
\<close>

definition deletePtr :: "delete_kind \<Rightarrow> addr \<Rightarrow> 'v state \<Rightarrow> 'v state" where
  "deletePtr k ptr s =
     (let s1 = s\<lparr>trace := trace s @ [DeletePtr k ptr]\<rparr>
      in if ptr = nullptr then s1 else s1\<lparr>heap := (heap s1)(ptr := None)\<rparr>)"

text \<open>
  \<^verbatim>\<open>unique_ptr() : m_ptr(nullptr) {}\<close>, \<^verbatim>\<open>unique_ptr(std::nullptr_t) : m_ptr(nullptr) {}\<close>
  and \<^verbatim>\<open>explicit unique_ptr(PtrType ptr) : m_ptr(ptr) {}\<close>; \<open>this\<close> is the location of
  the object under construction.
\<close>

definition unique_ptr_default :: "handle \<Rightarrow> 'v state \<Rightarrow> 'v state" where
  "unique_ptr_default this s = set_m_ptr this nullptr s"

definition unique_ptr_raw :: "handle \<Rightarrow> addr \<Rightarrow> 'v state \<Rightarrow> 'v state" where
  "unique_ptr_raw this ptr s = set_m_ptr this ptr s"

text \<open>\<^verbatim>\<open>~unique_ptr() { OwnedPtrDeleter<T>::deletePtr(m_ptr); m_ptr = nullptr; }\<close>\<close>

definition unique_ptr_dtor :: "delete_kind \<Rightarrow> handle \<Rightarrow> 'v state \<Rightarrow> 'v state" where
  "unique_ptr_dtor k this s = set_m_ptr this nullptr (deletePtr k (get this s) s)"

text \<open>
  \<^verbatim>\<open>void reset(PtrType ptr) { PtrType p = m_ptr; m_ptr = ptr; OwnedPtrDeleter<T>::deletePtr(p); }\<close>
  The declaration gives \<^verbatim>\<open>ptr\<close> the default \<^verbatim>\<open>nullptr\<close>.
\<close>

definition reset :: "delete_kind \<Rightarrow> handle \<Rightarrow> addr \<Rightarrow> 'v state \<Rightarrow> 'v state" where
  "reset k this ptr s =
     (let p = get this s;
          s1 = set_m_ptr this ptr s
      in deletePtr k p s1)"

definition reset_default :: "delete_kind \<Rightarrow> handle \<Rightarrow> 'v state \<Rightarrow> 'v state" where
  "reset_default k this s = reset k this nullptr s"

text \<open>\<^verbatim>\<open>PtrType release() { PtrType ptr = m_ptr; m_ptr = nullptr; return ptr; }\<close>\<close>

definition release :: "handle \<Rightarrow> 'v state \<Rightarrow> addr \<times> 'v state" where
  "release this s =
     (let ptr = get this s;
          s1 = set_m_ptr this nullptr s
      in (ptr, s1))"

text \<open>
  \<^verbatim>\<open>unique_ptr(unique_ptr<T>&& o) : m_ptr(o.release()) {}\<close>: \<open>this\<close> is the object under
  construction, \<open>other\<close> the one moved from.
\<close>

definition unique_ptr_move :: "handle \<Rightarrow> handle \<Rightarrow> 'v state \<Rightarrow> 'v state" where
  "unique_ptr_move this other s =
     (let (a, s1) = release other s
      in set_m_ptr this a s1)"

text \<open>
  The free helper
  \<^verbatim>\<open>unique_ptr<T> move(unique_ptr<T>& ptr) { return unique_ptr<T>(ptr.release()); }\<close>;
  \<open>result\<close> is the location of the returned object, which the return statement
  constructs from the raw pointer.
\<close>

definition move :: "handle \<Rightarrow> handle \<Rightarrow> 'v state \<Rightarrow> 'v state" where
  "move result ptr s =
     (let (a, s1) = release ptr s
      in unique_ptr_raw result a s1)"

text \<open>
  \<^verbatim>\<open>std::unique_ptr<T> wrapUnique(T* ptr) { return std::unique_ptr<T>(ptr); }\<close>, over the
  class of this header; \<open>result\<close> is the location of the returned object.
\<close>

definition wrapUnique :: "handle \<Rightarrow> addr \<Rightarrow> 'v state \<Rightarrow> 'v state" where
  "wrapUnique result ptr s = unique_ptr_raw result ptr s"

text \<open>
  Modelled from the spec: the macro \<^verbatim>\<open>DCHECK\<close> comes from wtf/Assertions.h, which is not
  among the sources. The spec calls it a debug-time assertion that aborts when its condition
  is false and is compiled out of release builds. \<open>debug\<close> says whether the build has
  debug assertions on.
\<close>

datatype failure = DCheckFailed

definition DCHECK :: "bool \<Rightarrow> bool \<Rightarrow> failure + unit" where
  "DCHECK debug cond = (if debug \<and> \<not> cond then Inl DCheckFailed else Inr ())"

text \<open>
  \<^verbatim>\<open>unique_ptr& operator=(unique_ptr<T>&& o)
  { PtrType ptr = m_ptr; m_ptr = o.release(); DCHECK(!ptr || m_ptr != ptr);
    OwnedPtrDeleter<T>::deletePtr(ptr); return *this; }\<close>
\<close>

definition move_assign ::
  "bool \<Rightarrow> delete_kind \<Rightarrow> handle \<Rightarrow> handle \<Rightarrow> 'v state \<Rightarrow> failure + 'v state" where
  "move_assign debug k this other s =
     (let ptr = get this s;
          (a, s1) = release other s;
          s2 = set_m_ptr this a s1
      in case DCHECK debug (ptr = nullptr \<or> get this s2 \<noteq> ptr) of
           Inl e \<Rightarrow> Inl e
         | Inr _ \<Rightarrow> Inr (deletePtr k ptr s2))"

text \<open>
  \<^verbatim>\<open>void swap(unique_ptr& o) { std::swap(m_ptr, o.m_ptr); }\<close>, where \<^verbatim>\<open>std::swap\<close> on
  two raw pointers is \<^verbatim>\<open>tmp = a; a = b; b = tmp\<close>; and the free function
  \<^verbatim>\<open>swap(a, b) { a.swap(b); }\<close>.
\<close>

definition unique_ptr_swap :: "handle \<Rightarrow> handle \<Rightarrow> 'v state \<Rightarrow> 'v state" where
  "unique_ptr_swap this other s =
     (let tmp = get this s;
          s1 = set_m_ptr this (get other s) s;
          s2 = set_m_ptr other tmp s1
      in s2)"

definition swap :: "handle \<Rightarrow> handle \<Rightarrow> 'v state \<Rightarrow> 'v state" where
  "swap a b s = unique_ptr_swap a b s"

text \<open>
  The four free comparison operators against a raw pointer, in the order of the header:
  \<^verbatim>\<open>a.get() == b\<close>, \<^verbatim>\<open>a == b.get()\<close>, \<^verbatim>\<open>a.get() != b\<close>, \<^verbatim>\<open>a != b.get()\<close>.
\<close>

definition operator_eq_ptr_raw :: "handle \<Rightarrow> addr \<Rightarrow> 'v state \<Rightarrow> bool" where
  "operator_eq_ptr_raw a b s = (get a s = b)"

definition operator_eq_raw_ptr :: "addr \<Rightarrow> handle \<Rightarrow> 'v state \<Rightarrow> bool" where
  "operator_eq_raw_ptr a b s = (a = get b s)"

definition operator_ne_ptr_raw :: "handle \<Rightarrow> addr \<Rightarrow> 'v state \<Rightarrow> bool" where
  "operator_ne_ptr_raw a b s = (get a s \<noteq> b)"

definition operator_ne_raw_ptr :: "addr \<Rightarrow> handle \<Rightarrow> 'v state \<Rightarrow> bool" where
  "operator_ne_raw_ptr a b s = (a \<noteq> get b s)"

text \<open>\<^verbatim>\<open>getPtr(const unique_ptr<T>& p) { return p.get(); }\<close>\<close>

definition getPtr :: "handle \<Rightarrow> 'v state \<Rightarrow> addr" where
  "getPtr p s = get p s"

subsection \<open>The type-level layer\<close>

text \<open>
  The trait shims of the header are functions from types to types or booleans, evaluated
  by the compiler. \<open>Named n\<close> is a complete object type, \<open>UnsizedArray T\<close> is
  \<^verbatim>\<open>T[]\<close>, \<open>SizedArray T n\<close> is \<^verbatim>\<open>T[n]\<close> and \<open>Pointer T\<close> is \<^verbatim>\<open>T*\<close>.
\<close>

datatype ctype =
    Named string
  | UnsizedArray ctype
  | SizedArray ctype nat
  | Pointer ctype

text \<open>
  \<^verbatim>\<open>remove_extent<T>\<close> with its specialisations for \<^verbatim>\<open>T[]\<close> and \<^verbatim>\<open>T[N]\<close>, and
  \<^verbatim>\<open>is_array<T>\<close> likewise.
\<close>

fun remove_extent :: "ctype \<Rightarrow> ctype" where
  "remove_extent (UnsizedArray T) = T"
| "remove_extent (SizedArray T n) = T"
| "remove_extent T = T"

fun is_array :: "ctype \<Rightarrow> bool" where
  "is_array (UnsizedArray T) = True"
| "is_array (SizedArray T n) = True"
| "is_array T = False"

text \<open>
  \<^verbatim>\<open>typedef typename remove_extent<T>::type ValueType; typedef ValueType* PtrType;\<close>
\<close>

definition PtrType :: "ctype \<Rightarrow> ctype" where
  "PtrType T = Pointer (remove_extent T)"

text \<open>
  \<^verbatim>\<open>template <bool, class T = void> struct enable_if {};\<close> has no member \<^verbatim>\<open>type\<close>;
  the specialisation \<^verbatim>\<open>enable_if<true, T>\<close> has \<^verbatim>\<open>typedef T type\<close>. \<open>None\<close> is the
  missing member.
\<close>

definition enable_if :: "bool \<Rightarrow> 't \<Rightarrow> 't option" where
  "enable_if b T = (if b then Some T else None)"

text \<open>
  What the compiler makes of one use of a function template: substitution into the
  declaration fails and the overload is dropped from the candidates (\<open>Removed\<close>), or the
  declaration is accepted and instantiating the body is an error (\<open>HardError\<close>), or the
  instantiation is well-formed (\<open>Viable\<close>).
\<close>

datatype diagnostic = StaticAssertFailed string | NotConvertible ctype ctype

datatype overload = Removed | HardError diagnostic | Viable

definition static_assert :: "bool \<Rightarrow> string \<Rightarrow> diagnostic option" where
  "static_assert cond msg = (if cond then None else Some (StaticAssertFailed msg))"

text \<open>
  The three forms of \<^verbatim>\<open>OwnedPtrDeleter\<close>: the primary template deletes a scalar, the
  specialisation for \<^verbatim>\<open>T[]\<close> deletes an array, and the one for \<^verbatim>\<open>T[n]\<close> holds only
  \<^verbatim>\<open>static_assert(sizeof(T) < 0, ...)\<close>, which no size satisfies. (The assertions
  \<^verbatim>\<open>sizeof(T) > 0\<close> of the first two reject incomplete types; every \<open>ctype\<close> is
  complete.)
\<close>

fun OwnedPtrDeleter :: "ctype \<Rightarrow> diagnostic + delete_kind" where
  "OwnedPtrDeleter (UnsizedArray T) = Inr ArrayDelete"
| "OwnedPtrDeleter (SizedArray T n) =
     Inl (StaticAssertFailed ''do not use array with size as type'')"
| "OwnedPtrDeleter T = Inr ScalarDelete"

text \<open>
  The private member templates
  \<^verbatim>\<open>template <typename U> bool operator==(const unique_ptr<U>&) const
  { static_assert(!sizeof(U*), "unique_ptrs should never be equal"); return false; }\<close>
  and the same for \<^verbatim>\<open>operator!=\<close>, in \<^verbatim>\<open>unique_ptr<T>\<close>. \<open>sizeof\<close> gives the size of
  a type on the target; \<^verbatim>\<open>!n\<close> on a size is \<open>n = 0\<close>. The result is the
  diagnostic, or the value the compiled function would return.
\<close>

definition operator_eq_unique_ptr :: "(ctype \<Rightarrow> nat) \<Rightarrow> ctype \<Rightarrow> ctype \<Rightarrow> diagnostic + bool" where
  "operator_eq_unique_ptr sizeof T U =
     (case static_assert (sizeof (Pointer U) = 0) ''unique_ptrs should never be equal'' of
        Some d \<Rightarrow> Inl d
      | None \<Rightarrow> Inr False)"

definition operator_ne_unique_ptr :: "(ctype \<Rightarrow> nat) \<Rightarrow> ctype \<Rightarrow> ctype \<Rightarrow> diagnostic + bool" where
  "operator_ne_unique_ptr sizeof T U =
     (case static_assert (sizeof (Pointer U) = 0) ''unique_ptrs should never be equal'' of
        Some d \<Rightarrow> Inl d
      | None \<Rightarrow> Inr False)"

text \<open>
  The converting move constructor, declared
  \<^verbatim>\<open>template <typename U, typename = typename enable_if<is_convertible<U*, T*>::value>::type>
  unique_ptr(unique_ptr<U>&&);\<close>
  and defined with the initialiser \<^verbatim>\<open>m_ptr(o.release())\<close> and the body
  \<^verbatim>\<open>static_assert(!is_array<T>::value, "pointers to array must never be converted")\<close>.
  \<open>conv\<close> is the relation \<^verbatim>\<open>is_convertible\<close> decides (an implicit conversion
  exists); the initialiser converts a \<^verbatim>\<open>unique_ptr<U>::PtrType\<close> to a
  \<^verbatim>\<open>unique_ptr<T>::PtrType\<close>.
\<close>

definition converting_move_ctor :: "(ctype \<Rightarrow> ctype \<Rightarrow> bool) \<Rightarrow> ctype \<Rightarrow> ctype \<Rightarrow> overload" where
  "converting_move_ctor conv T U =
     (case enable_if (conv (Pointer U) (Pointer T)) () of
        None \<Rightarrow> Removed
      | Some _ \<Rightarrow>
          (if \<not> conv (PtrType U) (PtrType T) then HardError (NotConvertible (PtrType U) (PtrType T))
           else (case static_assert (\<not> is_array T) ''pointers to array must never be converted'' of
                   Some d \<Rightarrow> HardError d
                 | None \<Rightarrow> Viable)))"

text \<open>
  The converting move assignment, declared
  \<^verbatim>\<open>template <typename U> unique_ptr& operator=(unique_ptr<U>&&);\<close>
  with nothing in the declaration that substitution could fail on, and defined with the
  same \<^verbatim>\<open>static_assert\<close> followed by \<^verbatim>\<open>m_ptr = o.release()\<close>.
\<close>

definition converting_move_assign :: "(ctype \<Rightarrow> ctype \<Rightarrow> bool) \<Rightarrow> ctype \<Rightarrow> ctype \<Rightarrow> overload" where
  "converting_move_assign conv T U =
     (case static_assert (\<not> is_array T) ''pointers to array must never be converted'' of
        Some d \<Rightarrow> HardError d
      | None \<Rightarrow>
          (if \<not> conv (PtrType U) (PtrType T) then HardError (NotConvertible (PtrType U) (PtrType T))
           else Viable))"

text \<open>
  Two sample targets for concrete instances: a size function with 8-byte pointers, and a
  convertibility relation with the identity and one derived-to-base conversion.
\<close>

fun sizeof_lp64 :: "ctype \<Rightarrow> nat" where
  "sizeof_lp64 (Pointer T) = 8"
| "sizeof_lp64 (SizedArray T n) = n * sizeof_lp64 T"
| "sizeof_lp64 T = 4"

definition derived_to_base :: "ctype \<Rightarrow> ctype \<Rightarrow> bool" where
  "derived_to_base a b =
     (a = b \<or> (a = Pointer (Named ''Derived'') \<and> b = Pointer (Named ''Base'')))"

section \<open>Properties\<close>

subsection \<open>Basic facts about the store\<close>

lemma deleter_calls_append:
  "deleter_calls (xs @ ys) = deleter_calls xs @ deleter_calls ys"
  by (induction xs rule: deleter_calls.induct) simp_all

lemma get_set_m_ptr: "get h (set_m_ptr this a s) = (if h = this then a else get h s)"
  by (simp add: get_def set_m_ptr_def)

lemma heap_set_m_ptr: "heap (set_m_ptr this a s) = heap s"
  by (simp add: set_m_ptr_def)

lemma trace_set_m_ptr: "trace (set_m_ptr this a s) = trace s @ [Store this a]"
  by (simp add: set_m_ptr_def)

lemma m_ptr_set_m_ptr: "m_ptr (set_m_ptr this a s) = (m_ptr s)(this := a)"
  by (simp add: set_m_ptr_def)

lemma get_deletePtr: "get h (deletePtr k a s) = get h s"
  by (simp add: get_def deletePtr_def Let_def)

lemma m_ptr_deletePtr: "m_ptr (deletePtr k a s) = m_ptr s"
  by (simp add: deletePtr_def Let_def)

lemma trace_deletePtr: "trace (deletePtr k a s) = trace s @ [DeletePtr k a]"
  by (simp add: deletePtr_def Let_def)

lemma heap_deletePtr:
  "heap (deletePtr k a s) = (if a = nullptr then heap s else (heap s)(a := None))"
  by (simp add: deletePtr_def Let_def)

lemmas store_simps =
  get_set_m_ptr heap_set_m_ptr trace_set_m_ptr m_ptr_set_m_ptr
  get_deletePtr m_ptr_deletePtr trace_deletePtr heap_deletePtr
  deleter_calls_append

subsection \<open>The factory\<close>

text \<open>
  C1. For every raw pointer \<open>a\<close>, the object returned by \<^verbatim>\<open>wrapUnique(a)\<close> has
  \<^verbatim>\<open>get() == a\<close>; the construction writes the one field of the returned object and
  nothing else: every other \<^verbatim>\<open>unique_ptr\<close> keeps its address, every value in the heap
  is as it was (none destroyed, none modified), and the deleter is not called.
\<close>

theorem wrapUnique_get:
  "get r (wrapUnique r a s) = a
   \<and> m_ptr (wrapUnique r a s) = (m_ptr s)(r := a)
   \<and> heap (wrapUnique r a s) = heap s
   \<and> deleter_calls (trace (wrapUnique r a s)) = deleter_calls (trace s)
   \<and> destroyed (wrapUnique r a s) = destroyed s"
  by (simp add: wrapUnique_def unique_ptr_raw_def destroyed_def store_simps)

lemma release_eq: "release p s = (get p s, set_m_ptr p nullptr s)"
  by (simp add: release_def Let_def)

lemma destroyed_set_m_ptr: "destroyed (set_m_ptr this a s) = destroyed s"
  by (simp add: destroyed_def store_simps)

lemma destroyed_deletePtr:
  "destroyed (deletePtr k a s) = destroyed s @ (if a = nullptr then [] else [a])"
  by (simp add: destroyed_def store_simps)

subsection \<open>Moving\<close>

text \<open>
  C2. Let \<open>p\<close> hold the address \<open>a\<close>, and let \<open>q\<close> be the object that the move
  constructor builds from \<open>p\<close>, or the object that the free helper \<^verbatim>\<open>move(p)\<close> returns
  (a new object, so another location than \<open>p\<close>). Afterwards \<^verbatim>\<open>p.get() == nullptr\<close> and
  \<^verbatim>\<open>q.get() == a\<close>, the heap is as before (the managed value is not destroyed) and the
  deleter has not been called.
\<close>

theorem move_transfers_ownership:
  assumes "q \<noteq> p"
  shows "get p (unique_ptr_move q p s) = nullptr
       \<and> get q (unique_ptr_move q p s) = get p s
       \<and> heap (unique_ptr_move q p s) = heap s
       \<and> deleter_calls (trace (unique_ptr_move q p s)) = deleter_calls (trace s)
       \<and> get p (move q p s) = nullptr
       \<and> get q (move q p s) = get p s
       \<and> heap (move q p s) = heap s
       \<and> deleter_calls (trace (move q p s)) = deleter_calls (trace s)"
  using assms
  by (simp add: unique_ptr_move_def move_def unique_ptr_raw_def release_eq store_simps)

theorem move_transfers_ownership_witness:
  "(2::nat) \<noteq> 1
   \<and> get 1 (wrapUnique 1 5 (new_object 5 (42::int) init_state)) = 5
   \<and> get 1 (unique_ptr_move 2 1 (wrapUnique 1 5 (new_object 5 (42::int) init_state))) = nullptr
   \<and> get 2 (unique_ptr_move 2 1 (wrapUnique 1 5 (new_object 5 (42::int) init_state))) = 5
   \<and> heap (unique_ptr_move 2 1 (wrapUnique 1 5 (new_object 5 (42::int) init_state))) 5 = Some 42
   \<and> get 1 (move 2 1 (wrapUnique 1 5 (new_object 5 (42::int) init_state))) = nullptr
   \<and> get 2 (move 2 1 (wrapUnique 1 5 (new_object 5 (42::int) init_state))) = 5
   \<and> heap (move 2 1 (wrapUnique 1 5 (new_object 5 (42::int) init_state))) 5 = Some 42"
  using move_transfers_ownership
          [of 2 1 "wrapUnique 1 5 (new_object 5 (42::int) init_state)"]
  by (simp add: wrapUnique_def unique_ptr_raw_def new_object_def init_state_def
        set_m_ptr_def get_def)

text \<open>
  The helper's result is often assigned to an object \<open>q\<close> that already exists:
  \<^verbatim>\<open>q = move(p);\<close> builds a temporary \<open>t\<close>, move-assigns it to \<open>q\<close> and destroys
  \<open>t\<close> at the end of the statement. With \<open>p\<close>, \<open>q\<close> and \<open>t\<close> three objects, and
  \<open>q\<close> not already holding the address of \<open>p\<close>, the statement returns normally,
  \<open>p\<close> ends up empty, \<open>q\<close> holds the address \<open>p\<close> held, and the only value that
  may be destroyed is the one \<open>q\<close> owned before.
\<close>

lemma move_then_assign:
  assumes "t \<noteq> p" and "t \<noteq> q" and "q \<noteq> p"
    and "get q s = nullptr \<or> get q s \<noteq> get p s"
  shows "\<exists>s1. move_assign debug k q t (move t p s) = Inr s1
           \<and> get p (unique_ptr_dtor k t s1) = nullptr
           \<and> get q (unique_ptr_dtor k t s1) = get p s
           \<and> heap (unique_ptr_dtor k t s1)
               = (if get q s = nullptr then heap s else (heap s)(get q s := None))"
  using assms
  by (auto simp add: move_assign_def DCHECK_def move_def unique_ptr_raw_def
        unique_ptr_dtor_def release_eq Let_def store_simps)

subsection \<open>Releasing\<close>

text \<open>
  C3. If \<open>p\<close> manages a non-null address \<open>a\<close>, then \<^verbatim>\<open>p.release()\<close> returns \<open>a\<close>,
  afterwards \<^verbatim>\<open>p.get() == nullptr\<close>, and the call destroys nothing: the heap is as
  before, the value at \<open>a\<close> included, and the deleter has not been called.
\<close>

theorem release_hands_over:
  assumes "get p s \<noteq> nullptr"
  shows "fst (release p s) = get p s
       \<and> get p (snd (release p s)) = nullptr
       \<and> heap (snd (release p s)) = heap s
       \<and> heap (snd (release p s)) (get p s) = heap s (get p s)
       \<and> deleter_calls (trace (snd (release p s))) = deleter_calls (trace s)
       \<and> m_ptr (snd (release p s)) = (m_ptr s)(p := nullptr)"
  by (simp add: release_eq store_simps)

theorem release_hands_over_witness:
  "get 1 (wrapUnique 1 5 (new_object 5 (42::int) init_state)) \<noteq> nullptr
   \<and> fst (release 1 (wrapUnique 1 5 (new_object 5 (42::int) init_state))) = 5
   \<and> get 1 (snd (release 1 (wrapUnique 1 5 (new_object 5 (42::int) init_state)))) = nullptr
   \<and> heap (snd (release 1 (wrapUnique 1 5 (new_object 5 (42::int) init_state)))) 5 = Some 42"
proof -
  have h: "get 1 (wrapUnique 1 5 (new_object 5 (42::int) init_state)) \<noteq> nullptr"
    by (simp add: wrapUnique_def unique_ptr_raw_def get_def set_m_ptr_def)
  show ?thesis
    using h release_hands_over [OF h]
    by (simp add: wrapUnique_def unique_ptr_raw_def new_object_def init_state_def
          set_m_ptr_def get_def)
qed

subsection \<open>Resetting\<close>

text \<open>
  C4, as stated: for every \<open>p\<close>, \<^verbatim>\<open>p.reset(b)\<close> destroys the previously managed
  address exactly once. It does not when \<open>p\<close> is empty: the deleter is handed the null
  pointer, on which \<^verbatim>\<open>delete\<close> does nothing, so the number of destructions of the old
  address does not grow by one. Here \<open>p\<close> is a default-constructed object.
\<close>

theorem reset_empty_destroys_nothing:
  "get 1 (unique_ptr_default 1 (new_object 5 (42::int) init_state)) = nullptr
   \<and> count_list (destroyed (reset ScalarDelete 1 5
          (unique_ptr_default 1 (new_object 5 (42::int) init_state))))
        (get 1 (unique_ptr_default 1 (new_object 5 (42::int) init_state)))
      \<noteq> count_list (destroyed (unique_ptr_default 1 (new_object 5 (42::int) init_state)))
          (get 1 (unique_ptr_default 1 (new_object 5 (42::int) init_state))) + 1
   \<and> destroyed (reset ScalarDelete 1 5
        (unique_ptr_default 1 (new_object 5 (42::int) init_state))) = []"
  by (simp add: reset_def unique_ptr_default_def new_object_def init_state_def
        destroyed_def deletePtr_def set_m_ptr_def get_def Let_def)

text \<open>
  C4, amended. For every \<open>p\<close>, \<^verbatim>\<open>p.reset(b)\<close> first writes \<open>b\<close> to the field and
  then hands the previously managed address to the deleter, exactly once (the trace grows
  by the store followed by the one deleter call, on the address captured before the
  store). If that address is not null, the value there is destroyed, exactly once; if it
  is null, nothing is destroyed. Afterwards \<^verbatim>\<open>p.get() == b\<close>, and no other object's
  field has changed.
\<close>

theorem reset_replaces:
  "get p (reset k p b s) = b
   \<and> m_ptr (reset k p b s) = (m_ptr s)(p := b)
   \<and> trace (reset k p b s) = trace s @ [Store p b, DeletePtr k (get p s)]
   \<and> deleter_calls (trace (reset k p b s)) = deleter_calls (trace s) @ [(k, get p s)]
   \<and> destroyed (reset k p b s) = destroyed s @ (if get p s = nullptr then [] else [get p s])
   \<and> heap (reset k p b s) = (if get p s = nullptr then heap s else (heap s)(get p s := None))"
  by (simp add: reset_def Let_def store_simps destroyed_set_m_ptr destroyed_deletePtr)

theorem reset_replaces_witness:
  "get 1 (reset ScalarDelete 1 7 (wrapUnique 1 5 (new_object 5 (42::int) init_state))) = 7
   \<and> destroyed (reset ScalarDelete 1 7 (wrapUnique 1 5 (new_object 5 (42::int) init_state)))
       = [5]
   \<and> heap (reset ScalarDelete 1 7 (wrapUnique 1 5 (new_object 5 (42::int) init_state))) 5
       = None
   \<and> trace (reset ScalarDelete 1 7 (wrapUnique 1 5 (new_object 5 (42::int) init_state)))
       = [Store 1 5, Store 1 7, DeletePtr ScalarDelete 5]"
  using reset_replaces
          [of 1 ScalarDelete 7 "wrapUnique 1 5 (new_object 5 (42::int) init_state)"]
  by (simp add: wrapUnique_def unique_ptr_raw_def new_object_def init_state_def
        set_m_ptr_def get_def destroyed_def)

subsection \<open>Move assignment\<close>

text \<open>
  C5. Let \<open>d\<close> and \<open>src\<close> be two distinct objects, and let the address \<open>d\<close> held
  before, if it is not null, differ from the one \<open>src\<close> holds. Then the move assignment
  \<^verbatim>\<open>d = std::move(src)\<close> returns normally, with debug assertions on or off; afterwards
  \<open>d\<close> holds the former address of \<open>src\<close> and \<^verbatim>\<open>src.get() == nullptr\<close>; and the value
  \<open>d\<close> owned before, if any, is destroyed after both fields have been written (the trace
  grows by the two stores and then the deleter call). The debug-time assertion compares
  the new and the old address of \<open>d\<close>: for any two arguments, a debug build aborts exactly
  when the old address is not null and equals the new one, and a release build never
  aborts.
\<close>

theorem move_assign_transfers:
  "(d \<noteq> src \<and> (get d s \<noteq> nullptr \<longrightarrow> get d s \<noteq> get src s) \<longrightarrow>
      (\<exists>s'. move_assign debug k d src s = Inr s'
         \<and> get d s' = get src s
         \<and> get src s' = nullptr
         \<and> trace s' = trace s @ [Store src nullptr, Store d (get src s), DeletePtr k (get d s)]
         \<and> destroyed s' = destroyed s @ (if get d s = nullptr then [] else [get d s])
         \<and> heap s' = (if get d s = nullptr then heap s else (heap s)(get d s := None))))
   \<and> ((move_assign True k d src s = Inl DCheckFailed)
        = (get d s \<noteq> nullptr \<and> get src s = get d s))
   \<and> (\<exists>s'. move_assign False k d src s = Inr s')"
  by (auto simp add: move_assign_def DCHECK_def release_eq Let_def store_simps
        destroyed_set_m_ptr destroyed_deletePtr)

theorem move_assign_transfers_witness:
  "(1::nat) \<noteq> 2
   \<and> get 1 (wrapUnique 2 7 (wrapUnique 1 5 (new_object 7 (9::int) (new_object 5 8 init_state)))) = 5
   \<and> get 2 (wrapUnique 2 7 (wrapUnique 1 5 (new_object 7 (9::int) (new_object 5 8 init_state)))) = 7
   \<and> (\<exists>s'. move_assign True ScalarDelete 1 2
             (wrapUnique 2 7 (wrapUnique 1 5 (new_object 7 (9::int) (new_object 5 8 init_state))))
           = Inr s'
         \<and> get 1 s' = 7 \<and> get 2 s' = nullptr \<and> destroyed s' = [5]
         \<and> heap s' 5 = None \<and> heap s' 7 = Some 9)"
proof -
  let ?s = "wrapUnique 2 7 (wrapUnique 1 5 (new_object 7 (9::int) (new_object 5 8 init_state)))"
  have vals: "get 1 ?s = 5" "get 2 ?s = 7" "destroyed ?s = []"
    "heap ?s 5 = Some 8" "heap ?s 7 = Some 9"
    by (simp_all add: wrapUnique_def unique_ptr_raw_def new_object_def init_state_def
          set_m_ptr_def get_def destroyed_def)
  have pre: "(1::nat) \<noteq> 2 \<and> (get 1 ?s \<noteq> nullptr \<longrightarrow> get 1 ?s \<noteq> get 2 ?s)"
    using vals by simp
  from move_assign_transfers [of 1 2 ?s True ScalarDelete] pre
  obtain s' where s': "move_assign True ScalarDelete 1 2 ?s = Inr s'"
    "get 1 s' = get 2 ?s" "get 2 s' = nullptr"
    "destroyed s' = destroyed ?s @ (if get 1 ?s = nullptr then [] else [get 1 ?s])"
    "heap s' = (if get 1 ?s = nullptr then heap ?s else (heap ?s)(get 1 ?s := None))"
    by blast
  from s' have "get 1 s' = 7 \<and> get 2 s' = nullptr \<and> destroyed s' = [5]
      \<and> heap s' 5 = None \<and> heap s' 7 = Some 9"
    using vals by simp
  with s'(1) vals show ?thesis
    by (intro conjI exI [of _ s']) simp_all
qed

subsection \<open>Swapping\<close>

text \<open>
  C6. If \<open>a\<close> holds \<open>x\<close> and \<open>b\<close> holds \<open>y\<close>, then after \<^verbatim>\<open>a.swap(b)\<close>, and after
  the free \<^verbatim>\<open>swap(a, b)\<close>, \<open>a\<close> holds \<open>y\<close> and \<open>b\<close> holds \<open>x\<close>; no value is
  destroyed (the heap is as before and the deleter has not been called), and no other
  object's field has changed.
\<close>

theorem swap_exchanges:
  "get a (unique_ptr_swap a b s) = get b s
   \<and> get b (unique_ptr_swap a b s) = get a s
   \<and> m_ptr (unique_ptr_swap a b s) = (m_ptr s)(a := get b s, b := get a s)
   \<and> heap (unique_ptr_swap a b s) = heap s
   \<and> deleter_calls (trace (unique_ptr_swap a b s)) = deleter_calls (trace s)
   \<and> destroyed (unique_ptr_swap a b s) = destroyed s
   \<and> swap a b s = unique_ptr_swap a b s"
  by (simp add: swap_def unique_ptr_swap_def Let_def store_simps destroyed_def)

theorem swap_exchanges_witness:
  "get 1 (swap 1 2
      (wrapUnique 2 7 (wrapUnique 1 5 (new_object 7 (9::int) (new_object 5 8 init_state))))) = 7
   \<and> get 2 (swap 1 2
      (wrapUnique 2 7 (wrapUnique 1 5 (new_object 7 (9::int) (new_object 5 8 init_state))))) = 5
   \<and> heap (swap 1 2
      (wrapUnique 2 7 (wrapUnique 1 5 (new_object 7 (9::int) (new_object 5 8 init_state))))) 5
       = Some 8
   \<and> heap (swap 1 2
      (wrapUnique 2 7 (wrapUnique 1 5 (new_object 7 (9::int) (new_object 5 8 init_state))))) 7
       = Some 9"
  using swap_exchanges
          [of 1 2 "wrapUnique 2 7 (wrapUnique 1 5 (new_object 7 (9::int) (new_object 5 8 init_state)))"]
  by (simp add: wrapUnique_def unique_ptr_raw_def new_object_def init_state_def
        set_m_ptr_def get_def)

subsection \<open>Comparison with a raw pointer\<close>

text \<open>
  C7. For every object \<open>p\<close> and raw pointer \<open>b\<close>: \<^verbatim>\<open>p == b\<close> holds iff
  \<^verbatim>\<open>p.get() == b\<close>, \<^verbatim>\<open>b == p\<close> holds iff \<^verbatim>\<open>b == p.get()\<close>, and in each operand order
  \<^verbatim>\<open>!=\<close> returns the negation of \<^verbatim>\<open>==\<close>.
\<close>

theorem compare_with_raw_pointer:
  "operator_eq_ptr_raw p b s = (get p s = b)
   \<and> operator_eq_raw_ptr b p s = (b = get p s)
   \<and> operator_ne_ptr_raw p b s = (\<not> operator_eq_ptr_raw p b s)
   \<and> operator_ne_raw_ptr b p s = (\<not> operator_eq_raw_ptr b p s)"
  by (simp add: operator_eq_ptr_raw_def operator_eq_raw_ptr_def
        operator_ne_ptr_raw_def operator_ne_raw_ptr_def)

subsection \<open>The empty pointer\<close>

text \<open>
  C10. If \<open>p\<close> is empty (\<^verbatim>\<open>p.get() == nullptr\<close>), then \<^verbatim>\<open>p.release()\<close> returns
  \<^verbatim>\<open>nullptr\<close> and leaves \<open>p\<close> empty; \<^verbatim>\<open>p.reset()\<close> leaves \<open>p\<close> empty and destroys
  nothing; and the destructor of \<open>p\<close> destroys nothing. In the last two the deleter is
  called once, with the null pointer; in all three the heap is as before.
\<close>

theorem empty_pointer_noop:
  assumes "get p s = nullptr"
  shows "fst (release p s) = nullptr
       \<and> get p (snd (release p s)) = nullptr
       \<and> heap (snd (release p s)) = heap s
       \<and> destroyed (snd (release p s)) = destroyed s
       \<and> get p (reset_default k p s) = nullptr
       \<and> heap (reset_default k p s) = heap s
       \<and> destroyed (reset_default k p s) = destroyed s
       \<and> deleter_calls (trace (reset_default k p s)) = deleter_calls (trace s) @ [(k, nullptr)]
       \<and> get p (unique_ptr_dtor k p s) = nullptr
       \<and> heap (unique_ptr_dtor k p s) = heap s
       \<and> destroyed (unique_ptr_dtor k p s) = destroyed s
       \<and> deleter_calls (trace (unique_ptr_dtor k p s)) = deleter_calls (trace s) @ [(k, nullptr)]"
  using assms
  by (simp add: release_eq reset_default_def reset_def unique_ptr_dtor_def Let_def
        store_simps destroyed_set_m_ptr destroyed_deletePtr)

theorem empty_pointer_noop_witness:
  "get 1 (unique_ptr_default 1 (new_object 5 (42::int) init_state)) = nullptr
   \<and> fst (release 1 (unique_ptr_default 1 (new_object 5 (42::int) init_state))) = nullptr
   \<and> heap (reset_default ScalarDelete 1
        (unique_ptr_default 1 (new_object 5 (42::int) init_state))) 5 = Some 42
   \<and> destroyed (reset_default ScalarDelete 1
        (unique_ptr_default 1 (new_object 5 (42::int) init_state))) = []
   \<and> heap (unique_ptr_dtor ScalarDelete 1
        (unique_ptr_default 1 (new_object 5 (42::int) init_state))) 5 = Some 42
   \<and> destroyed (unique_ptr_dtor ScalarDelete 1
        (unique_ptr_default 1 (new_object 5 (42::int) init_state))) = []"
proof -
  have h: "get 1 (unique_ptr_default 1 (new_object 5 (42::int) init_state)) = nullptr"
    by (simp add: unique_ptr_default_def get_def set_m_ptr_def)
  show ?thesis
    using h empty_pointer_noop [OF h, of ScalarDelete]
    by (simp add: unique_ptr_default_def new_object_def init_state_def
          set_m_ptr_def get_def destroyed_def)
qed

subsection \<open>Comparison of two owning pointers\<close>

text \<open>
  C8. The only comparison operators that take two \<^verbatim>\<open>unique_ptr\<close> objects are the
  private member templates. For all pointee types \<open>T\<close> and \<open>U\<close>, on a target where a
  pointer to \<open>U\<close> has a size (which is never zero), instantiating \<^verbatim>\<open>operator==\<close> or
  \<^verbatim>\<open>operator!=\<close> of \<^verbatim>\<open>unique_ptr<T>\<close> for a \<^verbatim>\<open>unique_ptr<U>\<close> fails with the static
  assertion; neither ever yields a function that returns a value.
\<close>

theorem unique_ptr_comparison_rejected:
  assumes "0 < sizeof (Pointer U)"
  shows "operator_eq_unique_ptr sizeof T U
           = Inl (StaticAssertFailed ''unique_ptrs should never be equal'')
       \<and> operator_ne_unique_ptr sizeof T U
           = Inl (StaticAssertFailed ''unique_ptrs should never be equal'')
       \<and> (\<forall>b. operator_eq_unique_ptr sizeof T U \<noteq> Inr b)
       \<and> (\<forall>b. operator_ne_unique_ptr sizeof T U \<noteq> Inr b)"
  using assms
  by (simp add: operator_eq_unique_ptr_def operator_ne_unique_ptr_def static_assert_def)

theorem unique_ptr_comparison_rejected_witness:
  "0 < sizeof_lp64 (Pointer (Named ''Derived''))
   \<and> operator_eq_unique_ptr sizeof_lp64 (Named ''Base'') (Named ''Derived'')
       = Inl (StaticAssertFailed ''unique_ptrs should never be equal'')
   \<and> operator_ne_unique_ptr sizeof_lp64 (Named ''Base'') (Named ''Derived'')
       = Inl (StaticAssertFailed ''unique_ptrs should never be equal'')"
proof -
  have h: "0 < sizeof_lp64 (Pointer (Named ''Derived''))"
    by simp
  show ?thesis
    using h unique_ptr_comparison_rejected
            [where sizeof = sizeof_lp64 and U = "Named ''Derived''" and T = "Named ''Base''"]
    by blast
qed

subsection \<open>Converting moves\<close>

text \<open>
  The converting move constructor is gated by the trait: it is removed from the
  candidates exactly when \<^verbatim>\<open>U*\<close> is not convertible to \<^verbatim>\<open>T*\<close>, and so it is never
  instantiated then.
\<close>

lemma converting_move_ctor_gated:
  "(converting_move_ctor conv T U = Removed) = (\<not> conv (Pointer U) (Pointer T))"
  by (simp add: converting_move_ctor_def enable_if_def static_assert_def)

lemma converting_move_assign_never_removed:
  "converting_move_assign conv T U \<noteq> Removed"
  by (simp add: converting_move_assign_def static_assert_def)

text \<open>
  C9. The claim is that the converting move assignment, like the converting move
  constructor, is enabled only when \<^verbatim>\<open>U*\<close> is convertible to \<^verbatim>\<open>T*\<close>, and is removed
  by substitution failure otherwise. The code at two instances where the trait is false
  (the constructor is removed at both):
  \<^item> \<^verbatim>\<open>unique_ptr<Derived> = unique_ptr<Base>&&\<close>: the assignment is not removed; it
    is a hard error, from the pointer assignment in its body;
  \<^item> \<^verbatim>\<open>unique_ptr<Base> = unique_ptr<Derived[]>&&\<close>: the assignment is enabled and
    well-formed, since \<^verbatim>\<open>release()\<close> returns the element pointer \<^verbatim>\<open>Derived*\<close>.
\<close>

theorem converting_move_assign_ungated:
  "\<not> derived_to_base (Pointer (Named ''Base'')) (Pointer (Named ''Derived''))
   \<and> converting_move_ctor derived_to_base (Named ''Derived'') (Named ''Base'') = Removed
   \<and> converting_move_assign derived_to_base (Named ''Derived'') (Named ''Base'')
       = HardError (NotConvertible (Pointer (Named ''Base'')) (Pointer (Named ''Derived'')))
   \<and> \<not> derived_to_base (Pointer (UnsizedArray (Named ''Derived''))) (Pointer (Named ''Base''))
   \<and> converting_move_ctor derived_to_base (Named ''Base'') (UnsizedArray (Named ''Derived''))
       = Removed
   \<and> converting_move_assign derived_to_base (Named ''Base'') (UnsizedArray (Named ''Derived''))
       = Viable"
  by (simp add: converting_move_ctor_def converting_move_assign_def derived_to_base_def
        enable_if_def static_assert_def PtrType_def)

end
